theory Spec2Isabelle
  imports Main
begin

section \<open>The Alice moderation adapter (parlant/contrib/alice/alice.py)\<close>

subsection \<open>Python values the adapter handles\<close>

text \<open>
  Raised objects. \<open>ValueError\<close> and \<open>Exception\<close> are the two classes the adapter
  raises itself; \<open>Exception\<close> carries its message and the exception it was chained
  from (\<open>raise ... from e\<close>). \<open>OtherException\<close> stands for any further subclass of
  Python's \<open>Exception\<close> (named by its class), \<open>BaseExceptionOnly\<close> for a raised
  object that derives from \<open>BaseException\<close> but not from \<open>Exception\<close>
  (\<open>asyncio.CancelledError\<close>, \<open>KeyboardInterrupt\<close>, \<open>SystemExit\<close>).
\<close>

datatype py_exc =
    ValueError string
  | Exception string "py_exc option"
  | OtherException string
  | BaseExceptionOnly string

text \<open>\<open>isinstance(e, Exception)\<close>: what an \<open>except Exception\<close> clause catches.\<close>

fun isinstance_Exception :: "py_exc \<Rightarrow> bool" where
  "isinstance_Exception (BaseExceptionOnly _) = False"
| "isinstance_Exception _ = True"

fun isinstance_ValueError :: "py_exc \<Rightarrow> bool" where
  "isinstance_ValueError (ValueError _) = True"
| "isinstance_ValueError _ = False"

text \<open>Truthiness of an \<open>Optional[str]\<close>: \<open>None\<close> and the empty string are falsy.\<close>

fun truthy :: "string option \<Rightarrow> bool" where
  "truthy None = False"
| "truthy (Some s) = (s \<noteq> [])"

text \<open>Python's \<open>a or b\<close> on optional strings: \<open>a\<close> when it is truthy, else \<open>b\<close>.\<close>

definition py_or :: "string option \<Rightarrow> string option \<Rightarrow> string option" where
  "py_or a b = (if truthy a then a else b)"

text \<open>The process environment, and \<open>os.getenv\<close> without and with a default.\<close>

type_synonym environ = "string \<rightharpoonup> string"

definition getenv :: "environ \<Rightarrow> string \<Rightarrow> string option" where
  "getenv env k = env k"

definition getenv_default :: "environ \<Rightarrow> string \<Rightarrow> string \<Rightarrow> string option" where
  "getenv_default env k d = (case env k of None \<Rightarrow> Some d | Some v \<Rightarrow> Some v)"

subsection \<open>The SDK's types\<close>

text \<open>
  The SDK client class \<open>WonderFenceClient\<close> is external. A client is known here by
  the two arguments it was made from. Its constructor is a parameter of the model: given
  the key and the application name it returns a client or raises, as the SDK decides.
\<close>

record sdk_client =
  client_api_key :: "string option"
  client_app_name :: "string option"

type_synonym sdk_constructor = "string option \<Rightarrow> string option \<Rightarrow> py_exc + sdk_client"

subsection \<open>The constructor\<close>

record alice =
  api_key :: "string option"
  app_name :: "string option"
  blocked_message :: "string option"
  client :: sdk_client

definition default_blocked_message :: string where
  "default_blocked_message = ''The generated message was blocked by guardrails.''"

definition api_key_required :: string where
  "api_key_required =
     ''Alice API key is required. Please provide it via the '' @ [CHR 0x27] @ ''api_key'' @
     [CHR 0x27] @ '' parameter or set the ALICE_API_KEY environment variable.''"

definition Alice_init ::
  "sdk_constructor \<Rightarrow> environ \<Rightarrow> string option \<Rightarrow> string option \<Rightarrow> string option
     \<Rightarrow> py_exc + alice" where
  "Alice_init SDKClient env api_key_arg app_name_arg blocked_message_arg =
     (let k = py_or api_key_arg (getenv env ''ALICE_API_KEY'');
          n = py_or app_name_arg (getenv env ''ALICE_APP_NAME'');
          b = py_or blocked_message_arg
                (getenv_default env ''ALICE_BLOCKED_MESSAGE'' default_blocked_message)
      in if \<not> truthy k then Inl (ValueError api_key_required)
         else case SDKClient k n of
                Inl e \<Rightarrow> Inl e
              | Inr c \<Rightarrow> Inr \<lparr>api_key = k, app_name = n, blocked_message = b, client = c\<rparr>)"

subsection \<open>The SDK's requests and responses\<close>

text \<open>
  Modelled from the spec: the SDK's models module is external. The glossary gives the
  action enum as allow/detect/block/mask; the adapter reads \<open>action\<close>,
  \<open>action_text\<close> and \<open>detections\<close> of the response. Each detection is kept as its
  \<open>repr\<close> text, which is all the adapter uses of it. \<open>ImageInput\<close> is opaque.
\<close>

datatype Actions = ALLOW | DETECT | BLOCK | MASK

datatype ImageInput = ImageInput string

record EvaluateMessageResponse =
  action :: Actions
  action_text :: "string option"
  detections :: "string list"

record AnalysisContext =
  user_id :: string
  session_id :: string

text \<open>One call of \<open>client.evaluate_response(context=..., response=..., image=...)\<close>.\<close>

record sdk_request =
  req_context :: AnalysisContext
  req_response :: "string option"
  req_image :: "ImageInput option"

text \<open>
  The external service is a parameter of the model: what the client's
  \<open>evaluate_response\<close> answers to a request, a raised object or a response.
\<close>

type_synonym evaluator = "sdk_client \<Rightarrow> sdk_request \<Rightarrow> py_exc + EvaluateMessageResponse"

subsection \<open>The host framework's types\<close>

datatype EngineHookResult = CALL_NEXT | BAIL

record EngineContext =
  ctx_session_id :: string
  ctx_agent_id :: string
  ctx_agent_name :: string
  ctx_trace_id :: string

text \<open>\<open>MessageEventData\<close> as passed to \<open>emit_message_event\<close>, with the trace id.\<close>

record message_event =
  ev_trace_id :: string
  ev_message :: "string option"
  ev_participant_id :: string
  ev_participant_display_name :: string

text \<open>
  Everything the adapter does to the outside: the calls made to the SDK evaluator, the
  warnings written to the logger and the message events emitted, each in order. The
  host's logger and event emitter are taken not to raise.
\<close>

record world =
  sdk_calls :: "sdk_request list"
  warnings :: "string list"
  events :: "message_event list"

subsection \<open>check_message\<close>

definition moderation_failure :: string where
  "moderation_failure = ''Moderation service failure (Alice)''"

definition check_message ::
  "alice \<Rightarrow> evaluator \<Rightarrow> string \<Rightarrow> string \<Rightarrow> string option \<Rightarrow> ImageInput option \<Rightarrow> world
     \<Rightarrow> (py_exc + EvaluateMessageResponse) \<times> world" where
  "check_message self evaluate_response sid aid message img w =
     (if message = None \<and> img = None
        then (Inl (ValueError ''Either message or image must be provided''), w)
      else if message \<noteq> None \<and> img \<noteq> None
        then (Inl (ValueError
                ''Cannot provide both message and image - they are mutually exclusive''), w)
      else
        let analysis_context = \<lparr>user_id = aid, session_id = sid\<rparr>;
            req = \<lparr>req_context = analysis_context, req_response = message, req_image = img\<rparr>;
            w' = w\<lparr>sdk_calls := sdk_calls w @ [req]\<rparr>
        in case evaluate_response (client self) req of
             Inl e \<Rightarrow>
               (if isinstance_Exception e
                  then (Inl (Exception moderation_failure (Some e)), w')
                  else (Inl e, w'))
           | Inr analysis_result \<Rightarrow> (Inr analysis_result, w'))"

subsection \<open>check_message_compliance\<close>

text \<open>Interpolation in an f-string: \<open>str\<close> of an optional string and of a list.\<close>

fun py_str :: "string option \<Rightarrow> string" where
  "py_str None = ''None''"
| "py_str (Some s) = s"

fun join_comma :: "string list \<Rightarrow> string" where
  "join_comma [] = []"
| "join_comma [x] = x"
| "join_comma (x # y # ys) = x @ '', '' @ join_comma (y # ys)"

definition py_str_list :: "string list \<Rightarrow> string" where
  "py_str_list xs = ''['' @ join_comma xs @ '']''"

definition detected_warning :: "string option \<Rightarrow> string list \<Rightarrow> string" where
  "detected_warning generated_message ds =
     ''Detected a non-compliant message: '' @ [CHR 0x27] @ py_str generated_message @
     [CHR 0x27] @ '': '' @ py_str_list ds @ ''.''"

definition prevented_warning :: "string option \<Rightarrow> string" where
  "prevented_warning generated_message =
     ''Prevented sending a non-compliant message: '' @ [CHR 0x27] @
     py_str generated_message @ [CHR 0x27] @ ''.''"

definition check_message_compliance ::
  "alice \<Rightarrow> evaluator \<Rightarrow> EngineContext \<Rightarrow> string option \<Rightarrow> py_exc option \<Rightarrow> world
     \<Rightarrow> (py_exc + EngineHookResult) \<times> world" where
  "check_message_compliance self evaluate_response ctx payload exc w =
     (let generated_message = payload
      in case check_message self evaluate_response (ctx_session_id ctx) (ctx_agent_id ctx)
                generated_message None w of
           (Inl e, w') \<Rightarrow> (Inl e, w')
         | (Inr result, w') \<Rightarrow>
             if action result = DETECT then
               (Inr CALL_NEXT,
                w'\<lparr>warnings := warnings w' @
                      [detected_warning generated_message (detections result)]\<rparr>)
             else if action result = BLOCK \<or> action result = MASK then
               (let message = (if action result = MASK then action_text result
                               else blocked_message self);
                    w1 = w'\<lparr>warnings := warnings w' @ [prevented_warning generated_message]\<rparr>;
                    w2 = w1\<lparr>events := events w1 @
                            [\<lparr>ev_trace_id = ctx_trace_id ctx, ev_message = message,
                              ev_participant_id = ctx_agent_id ctx,
                              ev_participant_display_name = ctx_agent_name ctx\<rparr>]\<rparr>
                in (Inr BAIL, w2))
             else (Inr CALL_NEXT, w'))"

subsection \<open>configure_container\<close>

text \<open>
  The host's dependency container binds keys (Python types) to objects. A container holds
  the definitions registered in it (\<open>own\<close>) and sees those of the container it was
  cloned from (\<open>inherited\<close>); its own definitions take precedence. The container and
  the \<open>EngineHooks\<close> object are mutated in place, so both live in a store and are
  passed by reference. Modelled from the spec: \<open>AliceNLPServiceWrapper\<close>
  (moderation_service.py is not among the sources) wraps the host's NLP service; the model
  keeps its four constructor arguments.
\<close>

type_synonym ref = nat

datatype dep_key = K_NLPService | K_Logger | K_Meter | K_EngineHooks | K_Alice | K_Other string

datatype dep_value =
    V_Object string
  | V_EngineHooks ref
  | V_Alice alice
  | AliceNLPServiceWrapper dep_value sdk_client dep_value dep_value

datatype hook = Alice_check_message_compliance alice | Host_hook string

record EngineHooks =
  on_message_generated :: "hook list"
  other_hook_lists :: "string \<rightharpoonup> hook list"

record container =
  own :: "dep_key \<rightharpoonup> dep_value"
  inherited :: "dep_key \<rightharpoonup> dep_value"

record store =
  containers :: "ref \<Rightarrow> container"
  hooks_objects :: "ref \<Rightarrow> EngineHooks"

definition get_definition :: "container \<Rightarrow> dep_key \<Rightarrow> dep_value option" where
  "get_definition ct k = (case own ct k of Some v \<Rightarrow> Some v | None \<Rightarrow> inherited ct k)"

text \<open>
  \<open>container[key]\<close>: the defined object when the key has a definition. For a key
  without one the container tries to build an object by reflection on the type; what
  that gives (an object, possibly new in the store, or a raised error) is the host's
  business and a parameter here.
\<close>

type_synonym reflector = "dep_key \<Rightarrow> ref \<Rightarrow> store \<Rightarrow> (py_exc + dep_value) \<times> store"

definition resolve :: "reflector \<Rightarrow> store \<Rightarrow> ref \<Rightarrow> dep_key \<Rightarrow> (py_exc + dep_value) \<times> store" where
  "resolve reflect s c k =
     (case get_definition (containers s c) k of
        Some v \<Rightarrow> (Inr v, s)
      | None \<Rightarrow> reflect k c s)"

text \<open>
  \<open>container[key] = value\<close>: registers the definition in the container itself, and
  raises \<open>DuplicateDefinition\<close> when the container already has a definition of its own
  for the key. A definition that is only inherited may be overridden.
\<close>

definition bind :: "store \<Rightarrow> ref \<Rightarrow> dep_key \<Rightarrow> dep_value \<Rightarrow> (py_exc + unit) \<times> store" where
  "bind s c k v =
     (case own (containers s c) k of
        Some _ \<Rightarrow> (Inl (OtherException ''DuplicateDefinition''), s)
      | None \<Rightarrow>
          (Inr (),
           s\<lparr>containers := (containers s)
                (c := (containers s c)\<lparr>own := (own (containers s c))(k \<mapsto> v)\<rparr>)\<rparr>))"

definition append_on_message_generated :: "store \<Rightarrow> ref \<Rightarrow> hook \<Rightarrow> store" where
  "append_on_message_generated s r h =
     s\<lparr>hooks_objects := (hooks_objects s)
          (r := (hooks_objects s r)
             \<lparr>on_message_generated := on_message_generated (hooks_objects s r) @ [h]\<rparr>)\<rparr>"

definition configure_container ::
  "reflector \<Rightarrow> alice \<Rightarrow> ref \<Rightarrow> store \<Rightarrow> (py_exc + ref) \<times> store" where
  "configure_container reflect self c s =
     (case resolve reflect s c K_NLPService of
        (Inl e, s0) \<Rightarrow> (Inl e, s0)
      | (Inr original_nlp_service, s0) \<Rightarrow>
     (case resolve reflect s0 c K_Logger of
        (Inl e, s1) \<Rightarrow> (Inl e, s1)
      | (Inr logger, s1) \<Rightarrow>
     (case resolve reflect s1 c K_Meter of
        (Inl e, s2) \<Rightarrow> (Inl e, s2)
      | (Inr meter, s2) \<Rightarrow>
        let wrapped_nlp_service =
              AliceNLPServiceWrapper original_nlp_service (client self) logger meter
        in (case bind s2 c K_NLPService wrapped_nlp_service of
              (Inl e, s3) \<Rightarrow> (Inl e, s3)
            | (Inr _, s3) \<Rightarrow>
           (case resolve reflect s3 c K_EngineHooks of
              (Inl e, s4) \<Rightarrow> (Inl e, s4)
            | (Inr (V_EngineHooks r), s4) \<Rightarrow>
                let s5 = append_on_message_generated s4 r
                           (Alice_check_message_compliance self)
                in (case bind s5 c K_Alice (V_Alice self) of
                      (Inl e, s6) \<Rightarrow> (Inl e, s6)
                    | (Inr _, s6) \<Rightarrow> (Inr c, s6))
            | (Inr _, s4) \<Rightarrow> (Inl (OtherException ''AttributeError''), s4))))))"

subsection \<open>Concrete inputs for the examples\<close>

definition example_alice :: alice where
  "example_alice =
     \<lparr>api_key = Some ''key'', app_name = Some ''app'',
      blocked_message = Some ''The generated message was blocked by guardrails.'',
      client = \<lparr>client_api_key = Some ''key'', client_app_name = Some ''app''\<rparr>\<rparr>"

definition example_ctx :: EngineContext where
  "example_ctx =
     \<lparr>ctx_session_id = ''s1'', ctx_agent_id = ''a1'', ctx_agent_name = ''Agent'',
      ctx_trace_id = ''t1''\<rparr>"

definition empty_world :: world where
  "empty_world = \<lparr>sdk_calls = [], warnings = [], events = []\<rparr>"

definition example_request :: "string option \<Rightarrow> sdk_request" where
  "example_request m =
     \<lparr>req_context = \<lparr>user_id = ''a1'', session_id = ''s1''\<rparr>, req_response = m,
      req_image = None\<rparr>"

definition answering :: "Actions \<Rightarrow> evaluator" where
  "answering a cl req = Inr \<lparr>action = a, action_text = Some ''***'', detections = [''d1'']\<rparr>"

definition raising :: "py_exc \<Rightarrow> evaluator" where
  "raising e cl req = Inl e"




text \<open>
  Two client constructors: one that accepts every pair of arguments, and one that
  validates its key, as the SDK's may, and rejects a key of blanks only.
\<close>

definition recording_client :: sdk_constructor where
  "recording_client k n = Inr \<lparr>client_api_key = k, client_app_name = n\<rparr>"

fun is_blank :: "string \<Rightarrow> bool" where
  "is_blank [] = True"
| "is_blank (c # cs) = (c = CHR '' '' \<and> is_blank cs)"

definition validating_client :: sdk_constructor where
  "validating_client k n =
     (case k of
        None \<Rightarrow> Inl (ValueError ''api_key is required'')
      | Some key \<Rightarrow>
          if is_blank key then Inl (ValueError ''api_key must not be blank'')
          else recording_client k n)"

definition no_environment :: environ where
  "no_environment = Map.empty"

definition example_environment :: environ where
  "example_environment =
     [''ALICE_API_KEY'' \<mapsto> ''k'', ''ALICE_APP_NAME'' \<mapsto> ''app'',
      ''ALICE_BLOCKED_MESSAGE'' \<mapsto> ''Blocked.'']"

section \<open>Properties\<close>

subsection \<open>Shared lemmas on check_message\<close>

text \<open>
  The two validation failures leave the world untouched; every other call makes one
  request to the evaluator and returns its answer, wrapping a caught exception.
\<close>

lemma check_message_invalid:
  "(message = None) = (img = None) \<Longrightarrow>
     check_message self ev sid aid message img w =
       (Inl (ValueError (if message = None then ''Either message or image must be provided''
             else ''Cannot provide both message and image - they are mutually exclusive'')), w)"
  by (auto simp: check_message_def)

lemma check_message_valid:
  "(message = None) \<noteq> (img = None) \<Longrightarrow>
     check_message self ev sid aid message img w =
       (let req = \<lparr>req_context = \<lparr>user_id = aid, session_id = sid\<rparr>,
                   req_response = message, req_image = img\<rparr>
        in (case ev (client self) req of
              Inl e \<Rightarrow> Inl (if isinstance_Exception e
                             then Exception moderation_failure (Some e) else e)
            | Inr r \<Rightarrow> Inr r,
            w\<lparr>sdk_calls := sdk_calls w @ [req]\<rparr>))"
  by (auto simp: check_message_def Let_def split: sum.splits)

lemma hook_sdk_calls:
  "sdk_calls (snd (check_message_compliance self ev ctx payload exc w)) =
     sdk_calls w @
       (case payload of
          None \<Rightarrow> []
        | Some m \<Rightarrow> [\<lparr>req_context = \<lparr>user_id = ctx_agent_id ctx, session_id = ctx_session_id ctx\<rparr>,
                       req_response = Some m, req_image = None\<rparr>])"
proof (cases payload)
  case None
  then show ?thesis
    by (simp add: check_message_compliance_def check_message_invalid)
next
  case (Some m)
  then show ?thesis
    by (simp add: check_message_compliance_def check_message_valid Let_def split: sum.splits)
qed

subsection \<open>The hook's branching\<close>

text \<open>
  C1: for every result returned by the moderation call inside
  \<open>check_message_compliance\<close>: on DETECT the hook only appends a warning to the log and
  returns CALL_NEXT; on BLOCK it emits a message event carrying the configured
  \<open>blocked_message\<close> and returns BAIL; on MASK it emits a message event carrying the
  response's \<open>action_text\<close> and returns BAIL; on any other action it changes nothing
  further and returns CALL_NEXT.
\<close>

theorem check_message_compliance_action_mapping:
  assumes "check_message self evaluate_response (ctx_session_id ctx) (ctx_agent_id ctx)
             payload None w = (Inr result, w1)"
  shows "(action result = DETECT \<longrightarrow>
            check_message_compliance self evaluate_response ctx payload exc w =
              (Inr CALL_NEXT,
               w1\<lparr>warnings := warnings w1 @ [detected_warning payload (detections result)]\<rparr>))
       \<and> (action result = BLOCK \<longrightarrow>
            fst (check_message_compliance self evaluate_response ctx payload exc w) = Inr BAIL
          \<and> events (snd (check_message_compliance self evaluate_response ctx payload exc w)) =
              events w1 @ [\<lparr>ev_trace_id = ctx_trace_id ctx, ev_message = blocked_message self,
                            ev_participant_id = ctx_agent_id ctx,
                            ev_participant_display_name = ctx_agent_name ctx\<rparr>])
       \<and> (action result = MASK \<longrightarrow>
            fst (check_message_compliance self evaluate_response ctx payload exc w) = Inr BAIL
          \<and> events (snd (check_message_compliance self evaluate_response ctx payload exc w)) =
              events w1 @ [\<lparr>ev_trace_id = ctx_trace_id ctx, ev_message = action_text result,
                            ev_participant_id = ctx_agent_id ctx,
                            ev_participant_display_name = ctx_agent_name ctx\<rparr>])
       \<and> (action result \<noteq> DETECT \<and> action result \<noteq> BLOCK \<and> action result \<noteq> MASK \<longrightarrow>
            check_message_compliance self evaluate_response ctx payload exc w =
              (Inr CALL_NEXT, w1))"
  using assms by (simp add: check_message_compliance_def Let_def)

theorem check_message_compliance_action_mapping_witness:
  "fst (check_message_compliance example_alice (answering MASK) example_ctx (Some ''hi'')
          None empty_world) = Inr BAIL
   \<and> events (snd (check_message_compliance example_alice (answering MASK) example_ctx
                    (Some ''hi'') None empty_world)) =
       [\<lparr>ev_trace_id = ''t1'', ev_message = Some ''***'', ev_participant_id = ''a1'',
         ev_participant_display_name = ''Agent''\<rparr>]"
proof -
  have h: "check_message example_alice (answering MASK) (ctx_session_id example_ctx)
             (ctx_agent_id example_ctx) (Some ''hi'') None empty_world =
           (Inr \<lparr>action = MASK, action_text = Some ''***'', detections = [''d1'']\<rparr>,
            empty_world\<lparr>sdk_calls := [example_request (Some ''hi'')]\<rparr>)"
    by (simp add: check_message_def answering_def example_ctx_def example_request_def
          empty_world_def Let_def)
  from check_message_compliance_action_mapping [OF h, where exc = None]
  show ?thesis by (simp add: example_ctx_def empty_world_def)
qed

subsection \<open>Input validation of check_message\<close>

text \<open>
  C2: \<open>check_message\<close> raises ValueError exactly when message and image are not
  mutually exclusive: when both are None and when both are given. With exactly one of
  them given it raises no ValueError at all. In both failure cases the evaluator is
  not called (the world, with its list of SDK calls, is returned unchanged).
\<close>

theorem check_message_ValueError_iff:
  "(\<exists>msg. fst (check_message self ev sid aid message img w) = Inl (ValueError msg))
     = ((message = None) = (img = None))
   \<and> (message = None \<and> img = None \<longrightarrow>
        check_message self ev sid aid message img w =
          (Inl (ValueError ''Either message or image must be provided''), w))
   \<and> (message \<noteq> None \<and> img \<noteq> None \<longrightarrow>
        check_message self ev sid aid message img w =
          (Inl (ValueError
             ''Cannot provide both message and image - they are mutually exclusive''), w))"
proof (cases "(message = None) = (img = None)")
  case True
  from check_message_invalid [OF True] show ?thesis using True by auto
next
  case False
  then have ne: "(message = None) \<noteq> (img = None)" by simp
  have "\<not> (\<exists>msg. fst (check_message self ev sid aid message img w) = Inl (ValueError msg))"
    by (auto simp: check_message_valid [OF ne] Let_def split: sum.splits)
  with False show ?thesis by auto
qed

theorem check_message_ValueError_iff_witness:
  "(\<exists>msg. fst (check_message example_alice (answering ALLOW) ''s1'' ''a1'' (Some ''hi'')
                  (Some (ImageInput ''png'')) empty_world) = Inl (ValueError msg))
   \<and> check_message example_alice (answering ALLOW) ''s1'' ''a1'' (Some ''hi'')
         (Some (ImageInput ''png'')) empty_world =
       (Inl (ValueError
          ''Cannot provide both message and image - they are mutually exclusive''),
        empty_world)"
  using check_message_ValueError_iff
          [where self = example_alice and ev = "answering ALLOW" and sid = "''s1''"
             and aid = "''a1''" and message = "Some ''hi''"
             and img = "Some (ImageInput ''png'')" and w = empty_world]
  by simp

subsection \<open>Failures of the external call\<close>

text \<open>
  C3, as the code has it: when the evaluator raises \<open>e\<close>, \<open>check_message\<close> raises a
  new Exception with message "Moderation service failure (Alice)" chained from \<open>e\<close>
  if \<open>e\<close> is an instance of Python's \<open>Exception\<close>; an object that is not (a
  \<open>BaseException\<close> such as \<open>asyncio.CancelledError\<close>) is not caught by
  \<open>except Exception\<close> and propagates as it is. The evaluator has been called once and
  is not called again. The input-validation failures are ValueErrors raised directly,
  with no call made.
\<close>

theorem check_message_failure_wrapping:
  "((message = None) \<noteq> (img = None) \<and>
      ev (client self) \<lparr>req_context = \<lparr>user_id = aid, session_id = sid\<rparr>,
                        req_response = message, req_image = img\<rparr> = Inl e \<longrightarrow>
      check_message self ev sid aid message img w =
        (Inl (if isinstance_Exception e
              then Exception ''Moderation service failure (Alice)'' (Some e) else e),
         w\<lparr>sdk_calls := sdk_calls w @
              [\<lparr>req_context = \<lparr>user_id = aid, session_id = sid\<rparr>,
                req_response = message, req_image = img\<rparr>]\<rparr>))
   \<and> ((message = None) = (img = None) \<longrightarrow>
        (\<exists>msg. check_message self ev sid aid message img w = (Inl (ValueError msg), w)))"
proof (cases "(message = None) = (img = None)")
  case True
  from check_message_invalid [OF True] show ?thesis using True by auto
next
  case False
  then have ne: "(message = None) \<noteq> (img = None)" by simp
  show ?thesis
  proof (intro conjI impI)
    assume "(message = None) \<noteq> (img = None) \<and>
      ev (client self) \<lparr>req_context = \<lparr>user_id = aid, session_id = sid\<rparr>,
                        req_response = message, req_image = img\<rparr> = Inl e"
    then show "check_message self ev sid aid message img w =
        (Inl (if isinstance_Exception e
              then Exception ''Moderation service failure (Alice)'' (Some e) else e),
         w\<lparr>sdk_calls := sdk_calls w @
              [\<lparr>req_context = \<lparr>user_id = aid, session_id = sid\<rparr>,
                req_response = message, req_image = img\<rparr>]\<rparr>)"
      by (simp add: check_message_valid [OF ne] Let_def moderation_failure_def)
  next
    assume "(message = None) = (img = None)"
    with False show "\<exists>msg. check_message self ev sid aid message img w = (Inl (ValueError msg), w)"
      by simp
  qed
qed

theorem check_message_failure_wrapping_witness:
  "check_message example_alice (raising (OtherException ''TimeoutError'')) ''s1'' ''a1''
     (Some ''hi'') None empty_world =
     (Inl (Exception ''Moderation service failure (Alice)''
             (Some (OtherException ''TimeoutError''))),
      empty_world\<lparr>sdk_calls := [example_request (Some ''hi'')]\<rparr>)
   \<and> (\<exists>msg. check_message example_alice (raising (OtherException ''TimeoutError'')) ''s1''
              ''a1'' None None empty_world = (Inl (ValueError msg), empty_world))"
proof -
  have h: "(Some ''hi'' = None) \<noteq> ((None :: ImageInput option) = None) \<and>
      raising (OtherException ''TimeoutError'') (client example_alice)
        \<lparr>req_context = \<lparr>user_id = ''a1'', session_id = ''s1''\<rparr>,
          req_response = Some ''hi'', req_image = None\<rparr> = Inl (OtherException ''TimeoutError'')"
    by (simp add: raising_def)
  from check_message_failure_wrapping
         [where message = "Some ''hi''" and img = None
            and ev = "raising (OtherException ''TimeoutError'')" and self = example_alice
            and aid = "''a1''" and sid = "''s1''" and e = "OtherException ''TimeoutError''"
            and w = empty_world]
       check_message_failure_wrapping
         [where message = None and img = None
            and ev = "raising (OtherException ''TimeoutError'')" and self = example_alice
            and aid = "''a1''" and sid = "''s1''" and e = "OtherException ''TimeoutError''"
            and w = empty_world]
       h
  show ?thesis by (simp add: example_request_def empty_world_def)
qed

text \<open>
  C3 as stated ("every exception raised by the call is re-raised as a new Exception")
  fails where the awaited call raises \<open>CancelledError\<close>: it comes out unwrapped.
\<close>

theorem check_message_wraps_every_exception_counterexample:
  "raising (BaseExceptionOnly ''CancelledError'') (client example_alice)
     (example_request (Some ''hi'')) = Inl (BaseExceptionOnly ''CancelledError'')
   \<and> fst (check_message example_alice (raising (BaseExceptionOnly ''CancelledError''))
            ''s1'' ''a1'' (Some ''hi'') None empty_world)
       = Inl (BaseExceptionOnly ''CancelledError'')
   \<and> fst (check_message example_alice (raising (BaseExceptionOnly ''CancelledError''))
            ''s1'' ''a1'' (Some ''hi'') None empty_world)
       \<noteq> Inl (Exception ''Moderation service failure (Alice)''
                 (Some (BaseExceptionOnly ''CancelledError'')))"
  by (simp add: check_message_def raising_def Let_def)

subsection \<open>The constructor\<close>



text \<open>
  C5, as the code has it: with no API key available after the fall-back (the parameter
  is None or empty and ALICE_API_KEY is unset or empty) the constructor raises its own
  ValueError. With a key available it calls the SDK client constructor on the resolved
  key and the resolved application name: it returns an instance holding that client
  when the SDK constructor returns one, and raises what the SDK constructor raises
  otherwise. So a ValueError comes out exactly when no key is available or the SDK
  constructor itself raises a ValueError.
\<close>

theorem Alice_init_ValueError_iff:
  "((ak = None \<or> ak = Some []) \<and>
    (env ''ALICE_API_KEY'' = None \<or> env ''ALICE_API_KEY'' = Some []) \<longrightarrow>
      Alice_init SDKClient env ak an bm = Inl (ValueError api_key_required))
   \<and> (\<not> ((ak = None \<or> ak = Some []) \<and>
          (env ''ALICE_API_KEY'' = None \<or> env ''ALICE_API_KEY'' = Some [])) \<longrightarrow>
        (\<forall>e. SDKClient (if truthy ak then ak else env ''ALICE_API_KEY'')
                       (if truthy an then an else env ''ALICE_APP_NAME'') = Inl e \<longrightarrow>
             Alice_init SDKClient env ak an bm = Inl e)
      \<and> (\<forall>c. SDKClient (if truthy ak then ak else env ''ALICE_API_KEY'')
                       (if truthy an then an else env ''ALICE_APP_NAME'') = Inr c \<longrightarrow>
             (\<exists>a. Alice_init SDKClient env ak an bm = Inr a \<and> client a = c)))
   \<and> (\<exists>msg. Alice_init SDKClient env ak an bm = Inl (ValueError msg)) =
       (((ak = None \<or> ak = Some []) \<and>
         (env ''ALICE_API_KEY'' = None \<or> env ''ALICE_API_KEY'' = Some []))
        \<or> (\<exists>msg. SDKClient (if truthy ak then ak else env ''ALICE_API_KEY'')
                            (if truthy an then an else env ''ALICE_APP_NAME'')
                    = Inl (ValueError msg)))"
  by (cases ak; cases "env ''ALICE_API_KEY''")
     (auto simp: Alice_init_def Let_def py_or_def getenv_def split: sum.splits)

theorem Alice_init_ValueError_iff_witness:
  "Alice_init recording_client no_environment None None None =
     Inl (ValueError api_key_required)
   \<and> (\<exists>a. Alice_init recording_client no_environment (Some ''key'') None None = Inr a
         \<and> client a = \<lparr>client_api_key = Some ''key'', client_app_name = None\<rparr>)
   \<and> \<not> (\<exists>msg. Alice_init recording_client no_environment (Some ''key'') None None =
               Inl (ValueError msg))"
proof -
  note t1 = Alice_init_ValueError_iff
              [where SDKClient = recording_client and env = no_environment and ak = None
                 and an = None and bm = None]
  note t2 = Alice_init_ValueError_iff
              [where SDKClient = recording_client and env = no_environment
                 and ak = "Some ''key''" and an = None and bm = None]
  have a: "Alice_init recording_client no_environment None None None =
             Inl (ValueError api_key_required)"
    using t1 by (simp add: no_environment_def)
  have b: "\<exists>a. Alice_init recording_client no_environment (Some ''key'') None None = Inr a
             \<and> client a = \<lparr>client_api_key = Some ''key'', client_app_name = None\<rparr>"
    using t2 by (simp add: no_environment_def recording_client_def)
  have c: "\<not> (\<exists>msg. Alice_init recording_client no_environment (Some ''key'') None None =
               Inl (ValueError msg))"
    using t2 by (simp add: no_environment_def recording_client_def)
  from a b c show ?thesis by blast
qed

text \<open>
  C5 as stated ("raises ValueError if and only if no API key is available; with a key
  it instantiates the client without raising") fails where the SDK client constructor
  rejects its arguments: with a key of one blank, which is available by the adapter's
  own test, the constructor of Alice raises the ValueError of the SDK constructor.
\<close>

theorem Alice_init_ValueError_only_without_key_counterexample:
  "truthy (Some '' '')
   \<and> Alice_init validating_client no_environment (Some '' '') None None =
       Inl (ValueError ''api_key must not be blank'')"
  by (simp add: Alice_init_def py_or_def getenv_def no_environment_def
        validating_client_def Let_def)

subsection \<open>Calls to the evaluator\<close>

text \<open>
  C6, as the code has it: for every invocation of the hook on a message-generation
  event whose payload is not None, the SDK evaluator is called exactly once, awaited
  inline: the one request is made within the invocation and the hook's result is
  computed from the answer to it. It is never called more than once, whatever the
  answer. For an invocation with payload None it is not called at all: the validation
  in \<open>check_message\<close> raises first.
\<close>

theorem hook_evaluator_call_count:
  "(\<exists>new. sdk_calls (snd (check_message_compliance self ev ctx payload exc w)) =
            sdk_calls w @ new
        \<and> length new \<le> 1
        \<and> (length new = 1) = (payload \<noteq> None))
   \<and> (\<forall>m. payload = Some m \<longrightarrow>
         sdk_calls (snd (check_message_compliance self ev ctx payload exc w)) =
           sdk_calls w @
             [\<lparr>req_context = \<lparr>user_id = ctx_agent_id ctx, session_id = ctx_session_id ctx\<rparr>,
               req_response = Some m, req_image = None\<rparr>]
       \<and> fst (check_message_compliance self ev ctx payload exc w) =
           (case ev (client self)
                   \<lparr>req_context = \<lparr>user_id = ctx_agent_id ctx,
                                   session_id = ctx_session_id ctx\<rparr>,
                     req_response = Some m, req_image = None\<rparr> of
              Inl e \<Rightarrow>
                Inl (if isinstance_Exception e
                     then Exception ''Moderation service failure (Alice)'' (Some e) else e)
            | Inr result \<Rightarrow>
                Inr (if action result = BLOCK \<or> action result = MASK then BAIL
                     else CALL_NEXT)))"
proof (cases payload)
  case None
  then show ?thesis by (simp add: hook_sdk_calls)
next
  case (Some m)
  have "fst (check_message_compliance self ev ctx (Some m) exc w) =
           (case ev (client self)
                   \<lparr>req_context = \<lparr>user_id = ctx_agent_id ctx,
                                   session_id = ctx_session_id ctx\<rparr>,
                     req_response = Some m, req_image = None\<rparr> of
              Inl e \<Rightarrow>
                Inl (if isinstance_Exception e
                     then Exception ''Moderation service failure (Alice)'' (Some e) else e)
            | Inr result \<Rightarrow>
                Inr (if action result = BLOCK \<or> action result = MASK then BAIL
                     else CALL_NEXT))"
    by (simp add: check_message_compliance_def check_message_valid Let_def
          moderation_failure_def split: sum.splits)
  with Some show ?thesis by (simp add: hook_sdk_calls)
qed

theorem hook_evaluator_call_count_witness:
  "sdk_calls (snd (check_message_compliance example_alice (answering BLOCK)
                     example_ctx (Some ''hi'') None empty_world)) =
     sdk_calls empty_world @ [example_request (Some ''hi'')]
   \<and> fst (check_message_compliance example_alice (answering BLOCK)
            example_ctx (Some ''hi'') None empty_world) = Inr BAIL"
  using hook_evaluator_call_count
          [where self = example_alice and ev = "answering BLOCK" and ctx = example_ctx
             and payload = "Some ''hi''" and exc = None and w = empty_world]
  by (simp add: example_ctx_def example_request_def answering_def)

text \<open>
  C6 as stated ("for every invocation the evaluator is called exactly once") fails for
  the payload None: the hook raises ValueError and no call has been made.
\<close>

theorem hook_calls_exactly_once_counterexample:
  "fst (check_message_compliance example_alice (answering ALLOW) example_ctx None None
          empty_world) = Inl (ValueError ''Either message or image must be provided'')
   \<and> sdk_calls (snd (check_message_compliance example_alice (answering ALLOW) example_ctx
                       None None empty_world)) = []"
  by (simp add: check_message_compliance_def check_message_def empty_world_def)

subsection \<open>Registration in the container\<close>

text \<open>
  What \<open>configure_container\<close> does where a definition is already registered in the
  container itself: the assignment raises. With NLPService registered nothing has
  changed by then; with only the Alice key registered the wrapper is bound and the
  hook appended before the last assignment raises.
\<close>

lemma get_definition_own_update:
  "get_definition (ct\<lparr>own := (own ct)(k \<mapsto> v)\<rparr>) k' =
     (if k' = k then Some v else get_definition ct k')"
  by (simp add: get_definition_def split: option.splits)

lemma configure_container_duplicate_nlp_service:
  assumes "own (containers s c) K_NLPService = Some nlp"
      and "get_definition (containers s c) K_Logger = Some lg"
      and "get_definition (containers s c) K_Meter = Some mt"
  shows "configure_container reflect self c s =
           (Inl (OtherException ''DuplicateDefinition''), s)"
  using assms
  by (simp add: configure_container_def resolve_def bind_def get_definition_def)

lemma configure_container_duplicate_alice:
  assumes "get_definition (containers s c) K_NLPService = Some nlp"
      and "get_definition (containers s c) K_Logger = Some lg"
      and "get_definition (containers s c) K_Meter = Some mt"
      and "get_definition (containers s c) K_EngineHooks = Some (V_EngineHooks r)"
      and "own (containers s c) K_NLPService = None"
      and "own (containers s c) K_Alice = Some v"
  shows "configure_container reflect self c s =
           (Inl (OtherException ''DuplicateDefinition''),
            append_on_message_generated
              (snd (bind s c K_NLPService
                      (AliceNLPServiceWrapper nlp (client self) lg mt)))
              r (Alice_check_message_compliance self))"
  using assms
  by (simp add: configure_container_def resolve_def bind_def get_definition_own_update
        append_on_message_generated_def Let_def)



subsection \<open>What the hook forwards\<close>

text \<open>
  C8: the hook always forwards its payload as the text and never supplies an image:
  the requests it makes to the evaluator are, for a payload that is not None, exactly
  one request carrying the payload as its text, no image, and the agent and session
  ids of the context, and for the payload None no request at all. Hence an invocation
  with payload None raises the ValueError of the neither-message-nor-image check
  instead of producing a hook result, and leaves the world as it was.
\<close>

theorem hook_forwards_payload_as_message:
  "sdk_calls (snd (check_message_compliance self ev ctx payload exc w)) =
     sdk_calls w @
       (case payload of
          None \<Rightarrow> []
        | Some m \<Rightarrow>
            [\<lparr>req_context = \<lparr>user_id = ctx_agent_id ctx, session_id = ctx_session_id ctx\<rparr>,
              req_response = payload, req_image = None\<rparr>])
   \<and> check_message_compliance self ev ctx None exc w =
       (Inl (ValueError ''Either message or image must be provided''), w)"
proof
  show "sdk_calls (snd (check_message_compliance self ev ctx payload exc w)) =
     sdk_calls w @
       (case payload of
          None \<Rightarrow> []
        | Some m \<Rightarrow>
            [\<lparr>req_context = \<lparr>user_id = ctx_agent_id ctx, session_id = ctx_session_id ctx\<rparr>,
              req_response = payload, req_image = None\<rparr>])"
    by (cases payload) (simp_all add: hook_sdk_calls)
  show "check_message_compliance self ev ctx None exc w =
       (Inl (ValueError ''Either message or image must be provided''), w)"
    by (simp add: check_message_compliance_def check_message_invalid)
qed

theorem hook_forwards_payload_as_message_witness:
  "sdk_calls (snd (check_message_compliance example_alice (answering DETECT) example_ctx
                     (Some ''hi'') None empty_world)) =
     [\<lparr>req_context = \<lparr>user_id = ''a1'', session_id = ''s1''\<rparr>,
       req_response = Some ''hi'', req_image = None\<rparr>]
   \<and> check_message_compliance example_alice (answering DETECT) example_ctx None None
       empty_world = (Inl (ValueError ''Either message or image must be provided''), empty_world)"
  using hook_forwards_payload_as_message
         [where w = empty_world and self = example_alice and ev = "answering DETECT"
            and ctx = example_ctx and payload = "Some ''hi''" and exc = None]
  by (simp add: example_ctx_def empty_world_def)

text \<open>
  C9: the hook does not depend on its \<open>exc\<close> argument: two invocations that agree on
  everything else have the same result, the same log, the same emitted events and the
  same calls.
\<close>

theorem hook_independent_of_exc:
  "check_message_compliance self ev ctx payload exc1 w =
   check_message_compliance self ev ctx payload exc2 w"
  by (simp add: check_message_compliance_def)

theorem hook_independent_of_exc_witness:
  "check_message_compliance example_alice (answering BLOCK) example_ctx (Some ''hi'') None
     empty_world =
   check_message_compliance example_alice (answering BLOCK) example_ctx (Some ''hi'')
     (Some (ValueError ''earlier failure'')) empty_world"
  using hook_independent_of_exc
          [where self = example_alice and ev = "answering BLOCK" and ctx = example_ctx
             and payload = "Some ''hi''" and ?exc1.0 = None
             and ?exc2.0 = "Some (ValueError ''earlier failure'')" and w = empty_world]
  by simp

subsection \<open>Empty strings as arguments of the constructor\<close>

text \<open>
  C10: an empty string passed for \<open>api_key\<close>, \<open>app_name\<close> or \<open>blocked_message\<close>
  behaves as None does, whatever the other arguments are, and it falls through: with
  all three empty and a key in ALICE_API_KEY, the instance has the values of the three
  environment variables, and the built-in default as \<open>blocked_message\<close> when
  ALICE_BLOCKED_MESSAGE is not set. In particular an empty \<open>api_key\<close> raises the
  constructor's ValueError when ALICE_API_KEY is unset.
\<close>

theorem Alice_init_empty_as_None:
  "Alice_init SDKClient env (Some []) an bm = Alice_init SDKClient env None an bm
   \<and> Alice_init SDKClient env ak (Some []) bm = Alice_init SDKClient env ak None bm
   \<and> Alice_init SDKClient env ak an (Some []) = Alice_init SDKClient env ak an None
   \<and> (truthy (env ''ALICE_API_KEY'') \<and>
      SDKClient (env ''ALICE_API_KEY'') (env ''ALICE_APP_NAME'') = Inr c \<longrightarrow>
        Alice_init SDKClient env (Some []) (Some []) (Some []) =
          Inr \<lparr>api_key = env ''ALICE_API_KEY'', app_name = env ''ALICE_APP_NAME'',
               blocked_message =
                 (case env ''ALICE_BLOCKED_MESSAGE'' of
                    Some v \<Rightarrow> Some v
                  | None \<Rightarrow> Some ''The generated message was blocked by guardrails.''),
               client = c\<rparr>)
   \<and> (env ''ALICE_API_KEY'' = None \<longrightarrow>
        Alice_init SDKClient env (Some []) an bm = Inl (ValueError api_key_required))"
  by (simp add: Alice_init_def py_or_def getenv_def getenv_default_def
        default_blocked_message_def split: option.splits)

theorem Alice_init_empty_as_None_witness:
  "Alice_init recording_client example_environment (Some []) (Some []) (Some []) =
     Inr \<lparr>api_key = Some ''k'', app_name = Some ''app'', blocked_message = Some ''Blocked.'',
          client = \<lparr>client_api_key = Some ''k'', client_app_name = Some ''app''\<rparr>\<rparr>
   \<and> Alice_init recording_client example_environment (Some []) (Some []) (Some []) =
       Alice_init recording_client example_environment None (Some []) (Some [])
   \<and> Alice_init recording_client no_environment (Some []) None None =
       Inl (ValueError api_key_required)"
proof -
  note t = Alice_init_empty_as_None
             [where SDKClient = recording_client and env = example_environment
                and ak = None and an = "Some []" and bm = "Some []"
                and c = "\<lparr>client_api_key = Some ''k'', client_app_name = Some ''app''\<rparr>"]
  note u = Alice_init_empty_as_None
             [where SDKClient = recording_client and env = no_environment
                and ak = None and an = None and bm = None
                and c = "\<lparr>client_api_key = None, client_app_name = None\<rparr>"]
  have a: "Alice_init recording_client example_environment (Some []) (Some []) (Some []) =
     Inr \<lparr>api_key = Some ''k'', app_name = Some ''app'', blocked_message = Some ''Blocked.'',
          client = \<lparr>client_api_key = Some ''k'', client_app_name = Some ''app''\<rparr>\<rparr>"
  proof -
    have pre: "truthy (example_environment ''ALICE_API_KEY'') \<and>
               recording_client (example_environment ''ALICE_API_KEY'')
                 (example_environment ''ALICE_APP_NAME'') =
               Inr \<lparr>client_api_key = Some ''k'', client_app_name = Some ''app''\<rparr>"
      by (simp add: example_environment_def recording_client_def)
    from t pre
    have "Alice_init recording_client example_environment (Some []) (Some []) (Some []) =
          Inr \<lparr>api_key = example_environment ''ALICE_API_KEY'',
               app_name = example_environment ''ALICE_APP_NAME'',
               blocked_message =
                 (case example_environment ''ALICE_BLOCKED_MESSAGE'' of
                    Some v \<Rightarrow> Some v
                  | None \<Rightarrow> Some ''The generated message was blocked by guardrails.''),
               client = \<lparr>client_api_key = Some ''k'', client_app_name = Some ''app''\<rparr>\<rparr>"
      by blast
    then show ?thesis by (simp add: example_environment_def)
  qed
  have b: "Alice_init recording_client example_environment (Some []) (Some []) (Some []) =
       Alice_init recording_client example_environment None (Some []) (Some [])"
    using t by blast
  have c: "Alice_init recording_client no_environment (Some []) None None =
       Inl (ValueError api_key_required)"
  proof -
    have pre: "no_environment ''ALICE_API_KEY'' = None"
      by (simp add: no_environment_def)
    from u pre show ?thesis by blast
  qed
  from a b c show ?thesis by blast
qed

end
